theory Spec2Isabelle
  imports Complex_Main
begin

section \<open>The Secret Santa notebook: terms, the 3-person problem, result printing\<close>

subsection \<open>Term model\<close>

text \<open>
  The notebook builds values \<^verbatim>\<open>Term(c = 1.0, indices = [i, i])\<close>: a coefficient
  (a Python float; only the values 1.0, 2.0 and -2.0 occur, so it is read as a real
  number) and a list of variable indices (Python ints).
\<close>

record Term =
  c :: real
  indices :: "int list"

subsection \<open>\<^verbatim>\<open>build_terms\<close>\<close>

text \<open>
  \<^verbatim>\<open>
  def build_terms(i: int, j: int):
      terms = []
      terms.append(Term(c = 1.0, indices = [i, i]))   # x(i)^2
      terms.append(Term(c = 1.0, indices = [j, j]))   # x(j)^2
      terms.append(Term(c = 2.0, indices = [i, j]))   # 2x(i)x(j)
      terms.append(Term(c = -2.0, indices = [i]))     # -2x(i)
      terms.append(Term(c = -2.0, indices = [j]))     # -2x(j)
      terms.append(Term(c = 1.0, indices = []))       # +1
      return terms
  \<close>
  The six appends are written as six list extensions at the end, in the source's order.
\<close>

definition build_terms :: "int \<Rightarrow> int \<Rightarrow> Term list" where
  "build_terms i j =
     (let terms = [];
          terms = terms @ [\<lparr>c = 1.0, indices = [i, i]\<rparr>];
          terms = terms @ [\<lparr>c = 1.0, indices = [j, j]\<rparr>];
          terms = terms @ [\<lparr>c = 2.0, indices = [i, j]\<rparr>];
          terms = terms @ [\<lparr>c = - 2.0, indices = [i]\<rparr>];
          terms = terms @ [\<lparr>c = - 2.0, indices = [j]\<rparr>];
          terms = terms @ [\<lparr>c = 1.0, indices = []\<rparr>]
      in terms)"

subsection \<open>The 3-person term list\<close>

text \<open>
  \<^verbatim>\<open>
  #       row 0             + row 1             + row 2
  terms = build_terms(0, 1) + build_terms(2, 3) + build_terms(4, 5)
  #             + col 0             + col 1             + col 2
  terms = terms + build_terms(2, 4) + build_terms(0, 5) + build_terms(1, 3)
  \<close>
\<close>

definition terms :: "Term list" where
  "terms =
     (let terms = build_terms 0 1 @ build_terms 2 3 @ build_terms 4 5;
          terms = terms @ build_terms 2 4 @ build_terms 0 5 @ build_terms 1 3
      in terms)"

text \<open>
  The argument pairs of the three row calls and of the three column calls, as the
  source's comments name them (row 0, row 1, row 2; col 0, col 1, col 2).
\<close>

definition row_calls :: "(int \<times> int) list" where
  "row_calls = [(0, 1), (2, 3), (4, 5)]"

definition col_calls :: "(int \<times> int) list" where
  "col_calls = [(2, 4), (0, 5), (1, 3)]"

text \<open>The variable indices that occur in a term list.\<close>

definition variables :: "Term list \<Rightarrow> int set" where
  "variables ts = \<Union> (set (map (\<lambda>t. set (indices t)) ts))"

subsection \<open>Assignments and the constraints of the notebook\<close>

text \<open>
  An assignment gives every variable index a value; a binary one gives 0 or 1 to the
  variables it is asked about.
\<close>

type_synonym assignment = "int \<Rightarrow> int"

definition binary_on :: "int list \<Rightarrow> assignment \<Rightarrow> bool" where
  "binary_on vs a = list_all (\<lambda>k. a k = 0 \<or> a k = 1) vs"

text \<open>
  The notebook states the constraints as
  \<open>(x0 \<oplus> x1) \<and> (x2 \<oplus> x3) \<and> (x4 \<oplus> x5) \<and> (x2 \<oplus> x4) \<and> (x0 \<oplus> x5) \<and> (x1 \<oplus> x3)\<close>,
  where \<open>\<oplus>\<close> is exclusive or: one variable or the other is one, but not both.
\<close>

definition exclusive_or :: "assignment \<Rightarrow> int \<Rightarrow> int \<Rightarrow> bool" where
  "exclusive_or a i j = ((a i = 1) \<noteq> (a j = 1))"

definition constraints :: "assignment \<Rightarrow> bool" where
  "constraints a =
     (exclusive_or a 0 1 \<and> exclusive_or a 2 3 \<and> exclusive_or a 4 5 \<and>
      exclusive_or a 2 4 \<and> exclusive_or a 0 5 \<and> exclusive_or a 1 3)"

subsection \<open>Objective evaluation\<close>

text \<open>
  Modelled from the spec: \<^verbatim>\<open>evaluate(terms, assignment)\<close>, the Objective Evaluator, is
  not in the notebook, which sends the term list to the remote solver. The spec says: for
  each term, compute coefficient times the product of the assignment values at the term's
  indices (empty product = 1), sum across all terms, return the scalar total. The
  notebook's introduction gives the same cost function, \<open>\<Sum>k. c k * (\<Prod>i. x i)\<close>.
  The model is the loop over the terms with a running total, and for each term the loop
  over its indices with a running product.
\<close>

fun product_loop :: "assignment \<Rightarrow> int list \<Rightarrow> int \<Rightarrow> int" where
  "product_loop a [] p = p"
| "product_loop a (k # ks) p = product_loop a ks (p * a k)"

definition contribution :: "assignment \<Rightarrow> Term \<Rightarrow> real" where
  "contribution a t = c t * of_int (product_loop a (indices t) 1)"

fun evaluate_loop :: "Term list \<Rightarrow> assignment \<Rightarrow> real \<Rightarrow> real" where
  "evaluate_loop [] a acc = acc"
| "evaluate_loop (t # ts) a acc = evaluate_loop ts a (acc + contribution a t)"

definition evaluate :: "Term list \<Rightarrow> assignment \<Rightarrow> real" where
  "evaluate ts a = evaluate_loop ts a 0"

subsection \<open>\<^verbatim>\<open>print_results\<close>\<close>

text \<open>
  \<^verbatim>\<open>
  def print_results(config: dict):
      result = {
          '0': 'Vincent buys Tess a gift and writes her a poem.',
          '1': 'Vincent buys Uma a gift and writes her a poem.',
          '2': 'Tess buys Vincent a gift and writes him a poem.',
          '3': 'Tess buys Uma a gift and writes her a poem.',
          '4': 'Uma buys Vincent a gift and writes him a poem.',
          '5': 'Uma buys Tess a gift and writes her a poem.'}
      for key, val in config.items():
          if val == 1:
              print(result[key])
  \<close>
  The configuration is a dictionary read in its iteration order: an association list of
  keys (strings) and values (integers). The function's effect is the lines it prints; the
  lookup \<^verbatim>\<open>result[key]\<close> raises \<^verbatim>\<open>KeyError\<close> on a key that is not in the table, which
  ends the loop with the lines printed so far. The model returns the printed lines
  together with the exception raised, if any.
\<close>

datatype error = KeyError string

definition result :: "string \<rightharpoonup> string" where
  "result = map_of
     [(''0'', ''Vincent buys Tess a gift and writes her a poem.''),
      (''1'', ''Vincent buys Uma a gift and writes her a poem.''),
      (''2'', ''Tess buys Vincent a gift and writes him a poem.''),
      (''3'', ''Tess buys Uma a gift and writes her a poem.''),
      (''4'', ''Uma buys Vincent a gift and writes him a poem.''),
      (''5'', ''Uma buys Tess a gift and writes her a poem.'')]"

fun print_loop :: "(string \<times> int) list \<Rightarrow> string list \<Rightarrow> string list \<times> error option" where
  "print_loop [] printed = (printed, None)"
| "print_loop ((key, val) # rest) printed =
     (if val = 1 then
        (case result key of
           None \<Rightarrow> (printed, Some (KeyError key))
         | Some line \<Rightarrow> print_loop rest (printed @ [line]))
      else print_loop rest printed)"

definition print_results :: "(string \<times> int) list \<Rightarrow> string list \<times> error option" where
  "print_results config = print_loop config []"

text \<open>
  The constraints of the notebook, read on a configuration: the key of variable \<open>k\<close> is
  the decimal string of \<open>k\<close>, as in the table of \<^verbatim>\<open>print_results\<close>, and the variable is
  set when the configuration maps its key to 1.
\<close>

definition variable_key :: "int \<rightharpoonup> string" where
  "variable_key = map_of
     [(0, ''0''), (1, ''1''), (2, ''2''), (3, ''3''), (4, ''4''), (5, ''5'')]"

definition config_assignment :: "(string \<times> int) list \<Rightarrow> assignment" where
  "config_assignment config =
     (\<lambda>k. case variable_key k of
            None \<Rightarrow> 0
          | Some key \<Rightarrow> (if map_of config key = Some 1 then 1 else 0))"

section \<open>Properties\<close>

subsection \<open>Auxiliary facts\<close>

lemma product_loop_prod_list: "product_loop a ks p = p * prod_list (map a ks)"
  by (induction ks arbitrary: p) (simp_all add: mult.assoc)

lemma contribution_prod_list:
  "contribution a t = c t * of_int (prod_list (map a (indices t)))"
  by (simp add: contribution_def product_loop_prod_list)

lemma evaluate_loop_sum_list:
  "evaluate_loop ts a acc = acc + sum_list (map (contribution a) ts)"
  by (induction ts arbitrary: acc) (simp_all add: add.assoc)

lemma evaluate_sum_list: "evaluate ts a = sum_list (map (contribution a) ts)"
  by (simp add: evaluate_def evaluate_loop_sum_list)

lemma evaluate_append: "evaluate (xs @ ys) a = evaluate xs a + evaluate ys a"
  by (simp add: evaluate_sum_list)

lemma evaluate_build_terms:
  "evaluate (build_terms i j) a = of_int ((a i + a j - 1)\<^sup>2)"
  by (simp add: evaluate_sum_list build_terms_def contribution_prod_list power2_eq_square algebra_simps)

lemma terms_calls:
  "terms = concat (map (\<lambda>(i, j). build_terms i j) (row_calls @ col_calls))"
  by (simp add: terms_def row_calls_def col_calls_def)

lemma evaluate_terms:
  "evaluate terms a =
     of_int ((a 0 + a 1 - 1)\<^sup>2 + (a 2 + a 3 - 1)\<^sup>2 + (a 4 + a 5 - 1)\<^sup>2 +
             (a 2 + a 4 - 1)\<^sup>2 + (a 0 + a 5 - 1)\<^sup>2 + (a 1 + a 3 - 1)\<^sup>2)"
  by (simp add: terms_def evaluate_append evaluate_build_terms)

lemma evaluate_terms_nonneg: "0 \<le> evaluate terms a"
  unfolding evaluate_terms by (simp del: of_int_add of_int_power)

lemma square_zero_iff_exclusive_or:
  assumes "a i = 0 \<or> a i = 1" and "a j = 0 \<or> a j = 1"
  shows "((a i + a j - 1)\<^sup>2 = 0) = exclusive_or a i j"
  using assms by (auto simp: exclusive_or_def)

lemma evaluate_terms_zero_iff:
  assumes "binary_on [0..5] a"
  shows "(evaluate terms a = 0) = constraints a"
proof -
  from assms have b: "a 0 = 0 \<or> a 0 = 1" "a 1 = 0 \<or> a 1 = 1" "a 2 = 0 \<or> a 2 = 1"
    "a 3 = 0 \<or> a 3 = 1" "a 4 = 0 \<or> a 4 = 1" "a 5 = 0 \<or> a 5 = 1"
    by (simp_all add: binary_on_def upto_rec1)
  have "(evaluate terms a = 0) =
        ((a 0 + a 1 - 1)\<^sup>2 + (a 2 + a 3 - 1)\<^sup>2 + (a 4 + a 5 - 1)\<^sup>2 +
         (a 2 + a 4 - 1)\<^sup>2 + (a 0 + a 5 - 1)\<^sup>2 + (a 1 + a 3 - 1)\<^sup>2 = 0)"
    unfolding evaluate_terms by (simp only: of_int_eq_0_iff)
  also have "\<dots> =
        ((a 0 + a 1 - 1)\<^sup>2 = 0 \<and> (a 2 + a 3 - 1)\<^sup>2 = 0 \<and> (a 4 + a 5 - 1)\<^sup>2 = 0 \<and>
         (a 2 + a 4 - 1)\<^sup>2 = 0 \<and> (a 0 + a 5 - 1)\<^sup>2 = 0 \<and> (a 1 + a 3 - 1)\<^sup>2 = 0)"
    by (simp only: add_nonneg_eq_0_iff zero_le_power2 add_nonneg_nonneg conj_assoc)
  also have "\<dots> = constraints a"
    by (simp only: constraints_def square_zero_iff_exclusive_or b)
  finally show ?thesis .
qed

lemma variables_terms: "variables terms = {0, 1, 2, 3, 4, 5}"
  by (auto simp: variables_def terms_def build_terms_def)

lemma dom_result: "dom result = {''0'', ''1'', ''2'', ''3'', ''4'', ''5''}"
  by (auto simp: result_def split: if_splits)

lemma print_loop_in_table:
  assumes "\<forall>(k, v) \<in> set config. v = 1 \<longrightarrow> k \<in> dom result"
  shows "print_loop config printed =
           (printed @ map (\<lambda>(k, v). the (result k)) (filter (\<lambda>(k, v). v = 1) config), None)"
  using assms by (induction config arbitrary: printed) (auto split: option.splits)

lemma print_loop_missing_key:
  assumes "(k, 1) \<in> set config" and "result k = None"
  shows "\<exists>out k'. print_loop config printed = (out, Some (KeyError k')) \<and> result k' = None
            \<and> (k', 1) \<in> set config"
  using assms
proof (induction config arbitrary: printed)
  case Nil
  then show ?case by simp
next
  case (Cons e rest)
  obtain key val where e: "e = (key, val)" by (cases e)
  show ?case
  proof (cases "val = 1 \<and> result key = None")
    case True
    then show ?thesis using e by auto
  next
    case False
    with Cons.prems e have "(k, 1) \<in> set rest" by auto
    note ih = Cons.IH[OF this Cons.prems(2)]
    show ?thesis
    proof (cases "val = 1")
      case True
      with False obtain line where line: "result key = Some line" by auto
      from ih[of "printed @ [line]"] obtain out k' where
        "print_loop rest (printed @ [line]) = (out, Some (KeyError k'))"
        "result k' = None" "(k', 1) \<in> set rest" by blast
      then show ?thesis using True line e by auto
    next
      case notone: False
      from ih[of printed] obtain out k' where
        "print_loop rest printed = (out, Some (KeyError k'))"
        "result k' = None" "(k', 1) \<in> set rest" by blast
      then show ?thesis using notone e by auto
    qed
  qed
qed

subsection \<open>The six terms of \<^verbatim>\<open>build_terms\<close>\<close>

text \<open>
  C1. For every pair of variable indices \<open>(i, j)\<close>, \<^verbatim>\<open>build_terms\<close> returns exactly six
  terms: coefficient 1 with indices \<open>(i, i)\<close>, coefficient 1 with indices \<open>(j, j)\<close>,
  coefficient 2 with indices \<open>(i, j)\<close>, coefficient -2 with indices \<open>(i)\<close>, coefficient -2
  with indices \<open>(j)\<close>, and coefficient 1 with the empty index sequence.
\<close>

theorem build_terms_six_terms:
  "length (build_terms i j) = 6
   \<and> map c (build_terms i j) = [1, 1, 2, - 2, - 2, 1]
   \<and> map indices (build_terms i j) = [[i, i], [j, j], [i, j], [i], [j], []]"
  by (simp add: build_terms_def)

subsection \<open>The penalty of one \<^verbatim>\<open>build_terms\<close> group\<close>

text \<open>
  C2. For every pair of distinct variable indices \<open>(i, j)\<close> and every assignment, the sum
  of the contributions of the six terms returned by \<^verbatim>\<open>build_terms(i, j)\<close> equals
  \<open>(x i + x j - 1)\<^sup>2\<close>; it evaluates to 0 at the assignments \<open>(x i = 0, x j = 1)\<close> and
  \<open>(x i = 1, x j = 0)\<close>, and to 1 at \<open>(x i = 0, x j = 0)\<close> and \<open>(x i = 1, x j = 1)\<close>.
  The identity holds for every integer-valued assignment, binary or not.
\<close>

theorem build_terms_penalty:
  assumes "i \<noteq> j"
  shows "evaluate (build_terms i j) a = of_int ((a i + a j - 1)\<^sup>2)
       \<and> evaluate (build_terms i j) (a(i := 0, j := 1)) = 0
       \<and> evaluate (build_terms i j) (a(i := 1, j := 0)) = 0
       \<and> evaluate (build_terms i j) (a(i := 0, j := 0)) = 1
       \<and> evaluate (build_terms i j) (a(i := 1, j := 1)) = 1"
  using assms by (simp add: evaluate_build_terms)

theorem build_terms_penalty_witness:
  "(0::int) \<noteq> 1
   \<and> evaluate (build_terms 0 1) (\<lambda>k. 0) = 1
   \<and> evaluate (build_terms 0 1) ((\<lambda>k. 0)(0 := 0, 1 := 1)) = 0
   \<and> evaluate (build_terms 0 1) ((\<lambda>k. 0)(0 := 1, 1 := 0)) = 0
   \<and> evaluate (build_terms 0 1) ((\<lambda>k. 0)(0 := 0, 1 := 0)) = 1
   \<and> evaluate (build_terms 0 1) ((\<lambda>k. 0)(0 := 1, 1 := 1)) = 1"
proof -
  have h: "(0::int) \<noteq> 1" by simp
  show ?thesis using h build_terms_penalty [OF h, of "\<lambda>k. 0"] by simp
qed

subsection \<open>The 3-person problem\<close>

text \<open>
  C3. The 3-person term list uses exactly the six variables 0 to 5, that is
  \<open>3 * (3 - 1)\<close> of them; every assignment evaluates to a value greater than or equal to
  0, and some binary assignment evaluates to exactly 0 (Vincent buys for Tess, Tess for
  Uma, Uma for Vincent).
\<close>

theorem terms_six_variables_minimum_zero:
  "variables terms = {0, 1, 2, 3, 4, 5}
   \<and> card (variables terms) = 3 * (3 - 1)
   \<and> (\<forall>a. 0 \<le> evaluate terms a)
   \<and> (\<exists>a. binary_on [0..5] a \<and> evaluate terms a = 0)"
proof -
  let ?a = "\<lambda>k::int. if k = 0 \<or> k = 3 \<or> k = 4 then 1 else (0::int)"
  have "binary_on [0..5] ?a" by (simp add: binary_on_def upto_rec1)
  moreover have "evaluate terms ?a = 0" by (simp add: evaluate_terms)
  ultimately have "\<exists>a. binary_on [0..5] a \<and> evaluate terms a = 0" by blast
  then show ?thesis by (simp add: variables_terms evaluate_terms_nonneg)
qed

text \<open>
  C4. For the 3-person term list, a binary assignment of the six variables has objective
  value 0 if and only if it satisfies all six exclusive-or row and column constraints;
  and an assignment of value 0 is a global minimum, so stopping at cost 0 is safe.
\<close>

theorem zero_cost_iff_constraints:
  assumes "binary_on [0..5] a"
  shows "(evaluate terms a = 0) = constraints a
       \<and> (evaluate terms a = 0 \<longrightarrow> (\<forall>b. evaluate terms a \<le> evaluate terms b))"
proof (intro conjI impI allI)
  show "(evaluate terms a = 0) = constraints a"
    using assms by (rule evaluate_terms_zero_iff)
next
  fix b
  assume "evaluate terms a = 0"
  then show "evaluate terms a \<le> evaluate terms b"
    by (simp add: evaluate_terms_nonneg)
qed

theorem zero_cost_iff_constraints_witness:
  "binary_on [0..5] (\<lambda>k. if k = 0 \<or> k = 3 \<or> k = 4 then 1 else 0)
   \<and> constraints (\<lambda>k. if k = 0 \<or> k = 3 \<or> k = 4 then 1 else 0)
   \<and> evaluate terms (\<lambda>k. if k = 0 \<or> k = 3 \<or> k = 4 then 1 else 0) = 0
   \<and> (\<forall>b. evaluate terms (\<lambda>k. if k = 0 \<or> k = 3 \<or> k = 4 then 1 else 0) \<le> evaluate terms b)"
proof -
  let ?a = "\<lambda>k::int. if k = 0 \<or> k = 3 \<or> k = 4 then 1 else (0::int)"
  have h: "binary_on [0..5] ?a" by (simp add: binary_on_def upto_rec1)
  have c: "constraints ?a" by (simp add: constraints_def exclusive_or_def)
  show ?thesis using h c zero_cost_iff_constraints [OF h] by simp
qed

text \<open>
  C8. In the 3-person instance, each variable index 0 to 5 occurs in exactly one of the
  three row calls of \<^verbatim>\<open>build_terms\<close> and in exactly one of the three column calls; the
  term list is the concatenation of these six calls.
\<close>

theorem each_variable_one_row_one_column:
  assumes "0 \<le> v" and "v \<le> 5"
  shows "length (filter (\<lambda>(i, j). v \<in> variables (build_terms i j)) row_calls) = 1
       \<and> length (filter (\<lambda>(i, j). v \<in> variables (build_terms i j)) col_calls) = 1
       \<and> terms = concat (map (\<lambda>(i, j). build_terms i j) (row_calls @ col_calls))"
proof -
  from assms have "v = 0 \<or> v = 1 \<or> v = 2 \<or> v = 3 \<or> v = 4 \<or> v = 5" by arith
  then have "length (filter (\<lambda>(i, j). v \<in> variables (build_terms i j)) row_calls) = 1"
    and "length (filter (\<lambda>(i, j). v \<in> variables (build_terms i j)) col_calls) = 1"
    by (auto simp: row_calls_def col_calls_def variables_def build_terms_def)
  then show ?thesis
    using terms_calls by simp
qed

theorem each_variable_one_row_one_column_witness:
  "(0::int) \<le> 3 \<and> (3::int) \<le> 5
   \<and> filter (\<lambda>(i, j). 3 \<in> variables (build_terms i j)) row_calls = [(2, 3)]
   \<and> filter (\<lambda>(i, j). 3 \<in> variables (build_terms i j)) col_calls = [(1, 3)]"
proof -
  have h: "(0::int) \<le> 3" "(3::int) \<le> 5" by simp_all
  show ?thesis using each_variable_one_row_one_column [OF h]
    by (simp add: row_calls_def col_calls_def variables_def build_terms_def)
qed

subsection \<open>The evaluator\<close>

text \<open>
  C6. For every term list and every assignment, \<^verbatim>\<open>evaluate\<close> returns the sum over all
  terms of the term's coefficient times the product of the assignment values at the
  term's indices, and a term with no index contributes its coefficient (the empty product
  is 1). \<^verbatim>\<open>evaluate\<close> is a function of the term list and the assignment alone: the
  model threads no state, so two calls on the same arguments give the same value.
\<close>

theorem evaluate_sum_of_products:
  "evaluate ts a = (\<Sum>t\<leftarrow>ts. c t * of_int (\<Prod>k\<leftarrow>indices t. a k))
   \<and> evaluate [\<lparr>c = x, indices = []\<rparr>] a = x"
proof -
  have "contribution a = (\<lambda>t. c t * of_int (\<Prod>k\<leftarrow>indices t. a k))"
    by (rule ext) (rule contribution_prod_list)
  then show ?thesis
    by (simp add: evaluate_sum_list)
qed

text \<open>
  C9. For every coefficient and every assignment that is binary at \<open>i\<close>, a term with the
  repeated indices \<open>(i, i)\<close> contributes the same value as a term with the single index
  \<open>(i)\<close>; the squared terms are nevertheless kept unreduced in the list that
  \<^verbatim>\<open>build_terms\<close> returns.
\<close>

theorem squared_variable_is_variable:
  assumes "a i = 0 \<or> a i = 1"
  shows "contribution a \<lparr>c = x, indices = [i, i]\<rparr> = contribution a \<lparr>c = x, indices = [i]\<rparr>
       \<and> \<lparr>c = 1, indices = [i, i]\<rparr> \<in> set (build_terms i j)
       \<and> \<lparr>c = 1, indices = [j, j]\<rparr> \<in> set (build_terms i j)"
  using assms by (auto simp: contribution_def build_terms_def)

theorem squared_variable_is_variable_witness:
  "contribution (\<lambda>k. 1) \<lparr>c = 7, indices = [2, 2]\<rparr> = 7
   \<and> contribution (\<lambda>k. 1) \<lparr>c = 7, indices = [2]\<rparr> = 7
   \<and> \<lparr>c = 1, indices = [2, 2]\<rparr> \<in> set (build_terms 2 3)"
  using squared_variable_is_variable [of "\<lambda>k. 1" 2 7 3]
  by (simp add: contribution_def)

subsection \<open>\<^verbatim>\<open>print_results\<close>\<close>

text \<open>
  C5, as stated, fails: \<^verbatim>\<open>print_results\<close> checks nothing. On the configuration in which
  Vincent and Tess both buy for Uma (variables 1 and 3 set, all others clear), which
  violates the constraints, it prints the two lines and returns without an error.
\<close>

theorem print_results_two_givers_same_receiver:
  "\<not> constraints (config_assignment
        [(''0'', 0), (''1'', 1), (''2'', 0), (''3'', 1), (''4'', 0), (''5'', 0)])
   \<and> print_results [(''0'', 0), (''1'', 1), (''2'', 0), (''3'', 1), (''4'', 0), (''5'', 0)] =
       ([''Vincent buys Uma a gift and writes her a poem.'',
         ''Tess buys Uma a gift and writes her a poem.''], None)"
  by (simp add: constraints_def exclusive_or_def config_assignment_def variable_key_def
      print_results_def result_def)

text \<open>
  C5, amended. For every configuration over the keys \<open>0\<close> to \<open>5\<close> that does not satisfy
  the constraints, \<^verbatim>\<open>print_results\<close> raises no error: it prints the line of every entry
  whose value is 1, in the configuration's order.
\<close>

theorem print_results_no_validation:
  assumes "set (map fst config) \<subseteq> {''0'', ''1'', ''2'', ''3'', ''4'', ''5''}"
    and "\<not> constraints (config_assignment config)"
  shows "print_results config =
           (map (\<lambda>(k, v). the (result k)) (filter (\<lambda>(k, v). v = 1) config), None)"
proof -
  from assms(1) have "\<forall>(k, v) \<in> set config. v = 1 \<longrightarrow> k \<in> dom result"
    unfolding dom_result by force
  then show ?thesis
    by (simp add: print_results_def print_loop_in_table)
qed

theorem print_results_no_validation_witness:
  "set (map fst [(''0'', 1), (''1'', 1), (''2'', 0::int)]) \<subseteq> {''0'', ''1'', ''2'', ''3'', ''4'', ''5''}
   \<and> \<not> constraints (config_assignment [(''0'', 1), (''1'', 1), (''2'', 0)])
   \<and> print_results [(''0'', 1), (''1'', 1), (''2'', 0)] =
       ([''Vincent buys Tess a gift and writes her a poem.'',
         ''Vincent buys Uma a gift and writes her a poem.''], None)"
proof -
  have h1: "set (map fst [(''0'', 1), (''1'', 1), (''2'', 0::int)])
              \<subseteq> {''0'', ''1'', ''2'', ''3'', ''4'', ''5''}" by simp
  have h2: "\<not> constraints (config_assignment [(''0'', 1), (''1'', 1), (''2'', 0)])"
    by (simp add: constraints_def exclusive_or_def config_assignment_def variable_key_def)
  show ?thesis using h1 h2 print_results_no_validation [OF h1 h2]
    by (simp add: result_def)
qed

text \<open>
  C10. For every configuration whose keys all lie in \<open>{0, 1, 2, 3, 4, 5}\<close> (as strings),
  \<^verbatim>\<open>print_results\<close> prints exactly the table's line of each entry whose value is 1, in
  the configuration's order, prints nothing for the other entries, and raises nothing. If
  a key outside that set has value 1, \<^verbatim>\<open>print_results\<close> ends with a \<^verbatim>\<open>KeyError\<close> on a
  key that is outside the table and has value 1.
\<close>

theorem print_results_behaviour:
  "(set (map fst config) \<subseteq> {''0'', ''1'', ''2'', ''3'', ''4'', ''5''} \<longrightarrow>
      print_results config =
        (map (\<lambda>(k, v). the (result k)) (filter (\<lambda>(k, v). v = 1) config), None))
   \<and> ((k, 1) \<in> set config \<and> k \<notin> {''0'', ''1'', ''2'', ''3'', ''4'', ''5''} \<longrightarrow>
      (\<exists>printed k'. print_results config = (printed, Some (KeyError k'))
          \<and> k' \<notin> {''0'', ''1'', ''2'', ''3'', ''4'', ''5''} \<and> (k', 1) \<in> set config))"
proof (intro conjI impI)
  assume "set (map fst config) \<subseteq> {''0'', ''1'', ''2'', ''3'', ''4'', ''5''}"
  then have "\<forall>(k, v) \<in> set config. v = 1 \<longrightarrow> k \<in> dom result"
    unfolding dom_result by force
  then show "print_results config =
        (map (\<lambda>(k, v). the (result k)) (filter (\<lambda>(k, v). v = 1) config), None)"
    by (simp add: print_results_def print_loop_in_table)
next
  assume "(k, 1) \<in> set config \<and> k \<notin> {''0'', ''1'', ''2'', ''3'', ''4'', ''5''}"
  then have "(k, 1) \<in> set config" and "result k = None"
    using dom_result by (simp, blast)
  from print_loop_missing_key[OF this, of "[]"]
  obtain out k' where "print_loop config [] = (out, Some (KeyError k'))"
    "result k' = None" "(k', 1) \<in> set config" by blast
  moreover from \<open>result k' = None\<close> have "k' \<notin> {''0'', ''1'', ''2'', ''3'', ''4'', ''5''}"
    using dom_result by blast
  ultimately show "\<exists>printed k'. print_results config = (printed, Some (KeyError k'))
          \<and> k' \<notin> {''0'', ''1'', ''2'', ''3'', ''4'', ''5''} \<and> (k', 1) \<in> set config"
    unfolding print_results_def by blast
qed

theorem print_results_behaviour_witness:
  "print_results [(''5'', 1), (''0'', 0), (''3'', 1), (''2'', 2)] =
       ([''Uma buys Tess a gift and writes her a poem.'',
         ''Tess buys Uma a gift and writes her a poem.''], None)
   \<and> (\<exists>printed k'. print_results [(''1'', 1), (''6'', 0), (''7'', 1), (''2'', 1)] =
          (printed, Some (KeyError k')))"
proof -
  have h1: "set (map fst [(''5'', 1), (''0'', 0), (''3'', 1), (''2'', 2::int)])
              \<subseteq> {''0'', ''1'', ''2'', ''3'', ''4'', ''5''}" by simp
  have h2: "(''7'', 1) \<in> set [(''1'', 1), (''6'', 0), (''7'', 1), (''2'', 1::int)]
              \<and> ''7'' \<notin> {''0'', ''1'', ''2'', ''3'', ''4'', ''5''}" by simp
  from h1 print_results_behaviour [of "[(''5'', 1), (''0'', 0), (''3'', 1), (''2'', 2)]"]
  have "print_results [(''5'', 1), (''0'', 0), (''3'', 1), (''2'', 2)] =
       ([''Uma buys Tess a gift and writes her a poem.'',
         ''Tess buys Uma a gift and writes her a poem.''], None)"
    by (simp add: result_def)
  moreover from h2
    print_results_behaviour [of "[(''1'', 1), (''6'', 0), (''7'', 1), (''2'', 1)]" "''7''"]
  have "\<exists>printed k'. print_results [(''1'', 1), (''6'', 0), (''7'', 1), (''2'', 1)] =
          (printed, Some (KeyError k'))"
    by blast
  ultimately show ?thesis by blast
qed

end
